theory Spec2Isabelle
  imports Complex_Main "HOL-Library.Word" "HOL-Library.Signed_Division"
begin

section \<open>The receipt processor (main.go)\<close>

text \<open>
  The program is one Go file: a global slice \<open>receipts\<close> and three HTTP handlers,
  \<open>processReceipt\<close>, \<open>getPoints\<close> and \<open>getReceipts\<close>, with the helper
  \<open>getReceiptById\<close>. The handlers are modelled as functions from the slice to a
  response and the new slice. Go strings are byte sequences, here \<open>string\<close>; Go's
  \<open>int\<close> is the machine integer of a 64-bit platform, here \<open>64 word\<close> where the
  handler does arithmetic on it.
\<close>

subsection \<open>Data\<close>

record item =
  ShortDescription :: string
  Price :: string

record receipt =
  Retailer :: string
  PurchaseDate :: string
  PurchaseTime :: string
  Items :: "item list"
  Total :: string
  ID :: string
  Points :: "64 word"

text \<open>The zero value of the struct, which \<open>var newReceipt receipt\<close> declares.\<close>

definition zero_receipt :: receipt where
  "zero_receipt = \<lparr>Retailer = [], PurchaseDate = [], PurchaseTime = [], Items = [],
     Total = [], ID = [], Points = 0\<rparr>"

text \<open>
  What a handler answers. \<open>OK_id\<close> and \<open>OK_points\<close> are the two 200 bodies
  (\<open>returnID\<close>, \<open>returnPoints\<close>), \<open>OK_receipts\<close> the listing, \<open>BadRequest\<close> and
  \<open>NotFound\<close> carry the message of the 400 and of the 404. \<open>Panic\<close> is a run-time
  panic inside the handler (a slice expression out of range); the router of
  \<open>gin.Default()\<close> recovers it and answers 500. \<open>NoRoute\<close> is the router's own
  404 for a path that none of the three routes matches: no handler runs.
\<close>

datatype response =
    OK_id string
  | OK_points "64 word"
  | OK_receipts "receipt list"
  | BadRequest string
  | NotFound string
  | Panic
  | NoRoute

subsection \<open>float64\<close>

text \<open>
  A float64 is a finite binary fraction, an infinity or NaN. The sign of zero is not
  kept: the handler reads its floats only by comparing with 0 and by converting to
  \<open>int\<close>, and neither sees that sign.
\<close>

datatype float64 = Finite rat | PosInf | NegInf | NaN

definition pow2 :: "int \<Rightarrow> rat" where
  "pow2 k = (if 0 \<le> k then 2 ^ nat k else 1 / 2 ^ nat (- k))"

text \<open>The number of binary digits of a positive integer.\<close>

function bitlen :: "int \<Rightarrow> int" where
  "bitlen n = (if n \<le> 0 then 0 else 1 + bitlen (n div 2))"
  by pat_completeness auto
termination
  by (relation "measure nat") auto

declare bitlen.simps [simp del]

text \<open>The exponent of the binade of a positive rational: \<open>pow2 e \<le> a < pow2 (e + 1)\<close>.\<close>

definition binade :: "rat \<Rightarrow> int" where
  "binade a = (if 1 \<le> a then bitlen \<lfloor>a\<rfloor> - 1 else - bitlen (\<lceil>1 / a\<rceil> - 1))"

definition round_half_even :: "rat \<Rightarrow> int" where
  "round_half_even x =
     (let f = \<lfloor>x\<rfloor>; d = x - of_int f
      in if d < 1 / 2 then f else if 1 / 2 < d then f + 1 else if even f then f else f + 1)"

text \<open>
  IEEE 754 rounding of an exact value to binary64, to nearest, ties to even: 53
  significant bits, the exponent of the unit in the last place not below \<open>-1074\<close>
  (subnormals), infinity from \<open>2 ^ 1024\<close> on.
\<close>

definition float64_of_rat :: "rat \<Rightarrow> float64" where
  "float64_of_rat q =
     (if q = 0 then Finite 0
      else let a = \<bar>q\<bar>;
               ulp = pow2 (max (binade a) (- 1022) - 52);
               r = of_int (round_half_even (a / ulp)) * ulp
           in if pow2 1024 \<le> r then (if 0 < q then PosInf else NegInf)
              else Finite (sgn q * r))"

text \<open>\<open>math.Mod(x, y)\<close>: the remainder of the truncated division, exact, with the sign of \<open>x\<close>.\<close>

fun math_Mod :: "float64 \<Rightarrow> float64 \<Rightarrow> float64" where
  "math_Mod (Finite x) (Finite y) =
     (if y = 0 then NaN else Finite (sgn x * (\<bar>x\<bar> - \<bar>y\<bar> * of_int \<lfloor>\<bar>x\<bar> / \<bar>y\<bar>\<rfloor>)))"
| "math_Mod (Finite x) PosInf = Finite x"
| "math_Mod (Finite x) NegInf = Finite x"
| "math_Mod _ _ = NaN"

text \<open>\<open>math.Ceil(x)\<close>: the least integer not below \<open>x\<close>; infinities and NaN are kept.\<close>

fun math_Ceil :: "float64 \<Rightarrow> float64" where
  "math_Ceil (Finite x) = Finite (of_int \<lceil>x\<rceil>)"
| "math_Ceil f = f"

text \<open>The product \<open>x * y\<close> of two float64 values, rounded once.\<close>

fun float64_mul :: "float64 \<Rightarrow> float64 \<Rightarrow> float64" where
  "float64_mul (Finite x) (Finite y) = float64_of_rat (x * y)"
| "float64_mul NaN _ = NaN"
| "float64_mul _ NaN = NaN"
| "float64_mul (Finite x) PosInf = (if x = 0 then NaN else if 0 < x then PosInf else NegInf)"
| "float64_mul (Finite x) NegInf = (if x = 0 then NaN else if 0 < x then NegInf else PosInf)"
| "float64_mul PosInf (Finite y) = (if y = 0 then NaN else if 0 < y then PosInf else NegInf)"
| "float64_mul NegInf (Finite y) = (if y = 0 then NaN else if 0 < y then NegInf else PosInf)"
| "float64_mul PosInf PosInf = PosInf"
| "float64_mul NegInf NegInf = PosInf"
| "float64_mul PosInf NegInf = NegInf"
| "float64_mul NegInf PosInf = NegInf"

text \<open>The comparison \<open>x == 0\<close>: false for the infinities and for NaN.\<close>

fun float64_is_zero :: "float64 \<Rightarrow> bool" where
  "float64_is_zero (Finite x) = (x = 0)"
| "float64_is_zero _ = False"

text \<open>
  The conversion \<open>int(f)\<close> truncates towards zero. Where the truncated value does not
  fit the 64-bit \<open>int\<close> (and for the infinities and NaN) the Go specification leaves the
  result to the implementation: it is the argument \<open>undef\<close>.
\<close>

definition int_of_float64 :: "(float64 \<Rightarrow> 64 word) \<Rightarrow> float64 \<Rightarrow> 64 word" where
  "int_of_float64 undef f =
     (case f of
        Finite x \<Rightarrow>
          (let t = (if 0 \<le> x then \<lfloor>x\<rfloor> else \<lceil>x\<rceil>)
           in if - (2 ^ 63) \<le> t \<and> t < 2 ^ 63 then word_of_int t else undef f)
      | _ \<Rightarrow> undef f)"

subsection \<open>Strings\<close>

definition is_digit :: "char \<Rightarrow> bool" where
  "is_digit c = (48 \<le> (of_char c :: nat) \<and> (of_char c :: nat) \<le> 57)"

definition digits_value :: "string \<Rightarrow> int" where
  "digits_value ds = foldl (\<lambda>n ch. n * 10 + (of_char ch - 48)) 0 ds"

text \<open>
  \<open>strconv.Atoi\<close>: an optional sign, then one or more decimal digits and nothing else;
  a value outside the 64-bit range is an error as well. \<open>None\<close> is \<open>err != nil\<close>.
\<close>

definition strconv_Atoi :: "string \<Rightarrow> int option" where
  "strconv_Atoi s =
     (let has_sign = (s \<noteq> [] \<and> (hd s = CHR ''-'' \<or> hd s = CHR ''+''));
          ds = (if has_sign then tl s else s);
          n = (if s \<noteq> [] \<and> hd s = CHR ''-'' then - digits_value ds else digits_value ds)
      in if ds = [] \<or> \<not> list_all is_digit ds then None
         else if - (2 ^ 63) \<le> n \<and> n < 2 ^ 63 then Some n
         else None)"

text \<open>
  The slice expression \<open>s[lo:hi]\<close> on a string takes bytes; it panics (\<open>None\<close>) unless
  \<open>lo \<le> hi \<le> len(s)\<close>.
\<close>

definition slice :: "string \<Rightarrow> nat \<Rightarrow> nat \<Rightarrow> string option" where
  "slice s lo hi = (if lo \<le> hi \<and> hi \<le> length s then Some (take (hi - lo) (drop lo s)) else None)"

text \<open>
  \<open>for _, char := range s\<close> decodes the bytes of \<open>s\<close> as UTF-8. \<open>decode_rune\<close> gives
  the code point at the head of the bytes and its width; a byte that starts no
  well-formed sequence is U+FFFD with width 1.
\<close>

definition continuation :: "nat \<Rightarrow> bool" where
  "continuation b = (128 \<le> b \<and> b \<le> 191)"

definition decode_rune :: "nat \<Rightarrow> nat list \<Rightarrow> nat \<times> nat" where
  "decode_rune b0 rest =
     (if b0 < 128 then (b0, 1)
      else if 194 \<le> b0 \<and> b0 \<le> 223 then
        (case rest of
           b1 # _ \<Rightarrow>
             if continuation b1 then ((b0 - 192) * 64 + (b1 - 128), 2) else (65533, 1)
         | _ \<Rightarrow> (65533, 1))
      else if 224 \<le> b0 \<and> b0 \<le> 239 then
        (case rest of
           b1 # b2 # _ \<Rightarrow>
             if (if b0 = 224 then 160 else 128) \<le> b1 \<and> b1 \<le> (if b0 = 237 then 159 else 191)
                \<and> continuation b2
             then (((b0 - 224) * 64 + (b1 - 128)) * 64 + (b2 - 128), 3)
             else (65533, 1)
         | _ \<Rightarrow> (65533, 1))
      else if 240 \<le> b0 \<and> b0 \<le> 244 then
        (case rest of
           b1 # b2 # b3 # _ \<Rightarrow>
             if (if b0 = 240 then 144 else 128) \<le> b1 \<and> b1 \<le> (if b0 = 244 then 143 else 191)
                \<and> continuation b2 \<and> continuation b3
             then ((((b0 - 240) * 64 + (b1 - 128)) * 64 + (b2 - 128)) * 64 + (b3 - 128), 4)
             else (65533, 1)
         | _ \<Rightarrow> (65533, 1))
      else (65533, 1))"

fun runes_of_bytes :: "nat list \<Rightarrow> nat list" where
  "runes_of_bytes [] = []"
| "runes_of_bytes (b0 # rest) =
     fst (decode_rune b0 rest) # runes_of_bytes (drop (snd (decode_rune b0 rest) - 1) rest)"

definition runes :: "string \<Rightarrow> nat list" where
  "runes s = runes_of_bytes (map of_char s)"

subsection \<open>The library and the platform\<close>

text \<open>
  Library functions whose result rests on tables or on a grammar outside main.go are
  arguments of the model: \<open>strconv.ParseFloat(s, 64)\<close> (\<open>None\<close> when \<open>err != nil\<close>),
  \<open>strings.TrimSpace\<close>, \<open>unicode.IsLetter\<close> and \<open>unicode.IsDigit\<close> on code points,
  what the platform gives for \<open>int(f)\<close> out of range, and whether the router's
  tree matches the parameter \<open>:id\<close> against an empty path segment
  (\<open>/receipts//points\<close>). A theorem stated for an environment \<open>E\<close> holds for every
  one.
\<close>

record go_env =
  strconv_ParseFloat :: "string \<Rightarrow> float64 option"
  strings_TrimSpace :: "string \<Rightarrow> string"
  unicode_IsLetter :: "nat \<Rightarrow> bool"
  unicode_IsDigit :: "nat \<Rightarrow> bool"
  int_out_of_range :: "float64 \<Rightarrow> 64 word"
  gin_empty_param :: bool

subsection \<open>processReceipt\<close>

text \<open>
  The request body as \<open>context.BindJSON\<close> reads it: \<open>Malformed\<close> is a body that does
  not deserialize into the struct (the call returns an error); \<open>Object\<close> is a JSON
  object, each key of the struct's tags present with its decoded value or absent.
  The tags of \<open>receipt\<close> include \<open>id\<close> and \<open>points\<close>. Which bodies are which is
  \<open>decodeJSON\<close> below.
\<close>

record json_receipt =
  json_retailer :: "string option"
  json_purchaseDate :: "string option"
  json_purchaseTime :: "string option"
  json_items :: "item list option"
  json_total :: "string option"
  json_id :: "string option"
  json_points :: "64 word option"

datatype body = Malformed | Object json_receipt

text \<open>
  Decoding writes the fields whose keys are present and leaves the others as they
  were in the struct it is given.
\<close>

definition decode_into :: "json_receipt \<Rightarrow> receipt \<Rightarrow> receipt" where
  "decode_into j r =
     \<lparr>Retailer = (case json_retailer j of None \<Rightarrow> Retailer r | Some v \<Rightarrow> v),
      PurchaseDate = (case json_purchaseDate j of None \<Rightarrow> PurchaseDate r | Some v \<Rightarrow> v),
      PurchaseTime = (case json_purchaseTime j of None \<Rightarrow> PurchaseTime r | Some v \<Rightarrow> v),
      Items = (case json_items j of None \<Rightarrow> Items r | Some v \<Rightarrow> v),
      Total = (case json_total j of None \<Rightarrow> Total r | Some v \<Rightarrow> v),
      ID = (case json_id j of None \<Rightarrow> ID r | Some v \<Rightarrow> v),
      Points = (case json_points j of None \<Rightarrow> Points r | Some v \<Rightarrow> v)\<rparr>"

fun BindJSON :: "body \<Rightarrow> receipt \<Rightarrow> receipt option" where
  "BindJSON Malformed r = None"
| "BindJSON (Object j) r = Some (decode_into j r)"

text \<open>The object with no key of the struct: \<open>{}\<close>.\<close>

definition empty_object :: json_receipt where
  "empty_object = \<lparr>json_retailer = None, json_purchaseDate = None, json_purchaseTime = None,
     json_items = None, json_total = None, json_id = None, json_points = None\<rparr>"

text \<open>
  Which request bodies bind. \<open>BindJSON\<close> decodes the first JSON value of the body with
  \<open>encoding/json\<close>; the struct has no \<open>binding\<close> tag, so nothing is validated after
  the decoding. A \<open>payload\<close> is the body as the decoder meets it: no JSON value at all
  (\<open>Not_JSON\<close>: an empty body, a syntax error), the value \<open>null\<close>, an object, or
  another value (an array, a string, a number, \<open>true\<close>, \<open>false\<close>). Of an object,
  \<open>receipt_object\<close> holds the value under each key of the struct's tags, when the
  key is there (the decoder compares keys ignoring case and ignores every other key;
  an object that repeats a key is not modelled). Where the struct has a string or an
  \<open>int\<close>, the value is \<open>null\<close>, a string, a number (its literal text) or something
  else (\<open>F_other\<close>: \<open>true\<close>, \<open>false\<close>, an array, an object).
\<close>

datatype field_json = F_null | F_string string | F_number string | F_other

record item_object =
  object_shortDescription :: "field_json option"
  object_price :: "field_json option"

datatype element_json = E_null | E_object item_object | E_other

datatype items_json = I_null | I_array "element_json list" | I_other

record receipt_object =
  object_retailer :: "field_json option"
  object_purchaseDate :: "field_json option"
  object_purchaseTime :: "field_json option"
  object_items :: "items_json option"
  object_total :: "field_json option"
  object_id :: "field_json option"
  object_points :: "field_json option"

datatype payload = Not_JSON | Top_null | Top_object receipt_object | Top_other

text \<open>
  The decoding of one field gives \<open>None\<close> for a value of the wrong type (an
  \<open>UnmarshalTypeError\<close>, which makes the whole call fail), \<open>Some None\<close> when the field
  is left as it was (the key is absent, or its value is \<open>null\<close>), and \<open>Some (Some v)\<close>
  when it is set. A number binds to the \<open>int\<close> field when its literal is a decimal
  integer that fits 64 bits (\<open>strconv.ParseInt\<close>, which reads what \<open>strconv.Atoi\<close>
  reads). For the slice, \<open>null\<close> gives the nil slice; an element of the array that is
  \<open>null\<close> is the zero item.
\<close>

fun string_field :: "field_json option \<Rightarrow> string option option" where
  "string_field None = Some None"
| "string_field (Some F_null) = Some None"
| "string_field (Some (F_string s)) = Some (Some s)"
| "string_field (Some (F_number n)) = None"
| "string_field (Some F_other) = None"

fun int_field :: "field_json option \<Rightarrow> 64 word option option" where
  "int_field None = Some None"
| "int_field (Some F_null) = Some None"
| "int_field (Some (F_number n)) =
     (case strconv_Atoi n of None \<Rightarrow> None | Some k \<Rightarrow> Some (Some (word_of_int k)))"
| "int_field (Some (F_string s)) = None"
| "int_field (Some F_other) = None"

definition string_or_empty :: "string option \<Rightarrow> string" where
  "string_or_empty v = (case v of None \<Rightarrow> [] | Some s \<Rightarrow> s)"

fun item_element :: "element_json \<Rightarrow> item option" where
  "item_element E_null = Some \<lparr>ShortDescription = [], Price = []\<rparr>"
| "item_element E_other = None"
| "item_element (E_object obj) =
     (case string_field (object_shortDescription obj) of
        None \<Rightarrow> None
      | Some d \<Rightarrow>
          (case string_field (object_price obj) of
             None \<Rightarrow> None
           | Some p \<Rightarrow>
               Some \<lparr>ShortDescription = string_or_empty d, Price = string_or_empty p\<rparr>))"

fun items_field :: "items_json option \<Rightarrow> item list option option" where
  "items_field None = Some None"
| "items_field (Some I_null) = Some (Some [])"
| "items_field (Some I_other) = None"
| "items_field (Some (I_array es)) = map_option Some (those (map item_element es))"

definition decode_object :: "receipt_object \<Rightarrow> json_receipt option" where
  "decode_object obj =
     (case string_field (object_retailer obj) of None \<Rightarrow> None | Some a \<Rightarrow>
     (case string_field (object_purchaseDate obj) of None \<Rightarrow> None | Some b \<Rightarrow>
     (case string_field (object_purchaseTime obj) of None \<Rightarrow> None | Some c \<Rightarrow>
     (case items_field (object_items obj) of None \<Rightarrow> None | Some d \<Rightarrow>
     (case string_field (object_total obj) of None \<Rightarrow> None | Some e \<Rightarrow>
     (case string_field (object_id obj) of None \<Rightarrow> None | Some f \<Rightarrow>
     (case int_field (object_points obj) of None \<Rightarrow> None | Some g \<Rightarrow>
        Some \<lparr>json_retailer = a, json_purchaseDate = b, json_purchaseTime = c,
              json_items = d, json_total = e, json_id = f, json_points = g\<rparr>)))))))"

fun decodeJSON :: "payload \<Rightarrow> body" where
  "decodeJSON Not_JSON = Malformed"
| "decodeJSON Top_other = Malformed"
| "decodeJSON Top_null = Object empty_object"
| "decodeJSON (Top_object obj) =
     (case decode_object obj of None \<Rightarrow> Malformed | Some j \<Rightarrow> Object j)"

text \<open>
  The same, said of the payload alone: a payload binds when it is \<open>null\<close> or an
  object in which every key that is there has a value of the type of its field.
  A key that is missing is no obstacle.
\<close>

fun string_typed :: "field_json option \<Rightarrow> bool" where
  "string_typed None = True"
| "string_typed (Some F_null) = True"
| "string_typed (Some (F_string s)) = True"
| "string_typed (Some (F_number n)) = False"
| "string_typed (Some F_other) = False"

fun int_typed :: "field_json option \<Rightarrow> bool" where
  "int_typed None = True"
| "int_typed (Some F_null) = True"
| "int_typed (Some (F_number n)) = (strconv_Atoi n \<noteq> None)"
| "int_typed (Some (F_string s)) = False"
| "int_typed (Some F_other) = False"

fun element_typed :: "element_json \<Rightarrow> bool" where
  "element_typed E_null = True"
| "element_typed E_other = False"
| "element_typed (E_object obj) =
     (string_typed (object_shortDescription obj) \<and> string_typed (object_price obj))"

fun items_typed :: "items_json option \<Rightarrow> bool" where
  "items_typed None = True"
| "items_typed (Some I_null) = True"
| "items_typed (Some I_other) = False"
| "items_typed (Some (I_array es)) = list_all element_typed es"

fun binds :: "payload \<Rightarrow> bool" where
  "binds Not_JSON = False"
| "binds Top_other = False"
| "binds Top_null = True"
| "binds (Top_object obj) =
     (string_typed (object_retailer obj) \<and> string_typed (object_purchaseDate obj) \<and>
      string_typed (object_purchaseTime obj) \<and> items_typed (object_items obj) \<and>
      string_typed (object_total obj) \<and> string_typed (object_id obj) \<and>
      int_typed (object_points obj))"

text \<open>
  \<open>newId\<close> is what \<open>uuid.NewString()\<close> returned for this request. The handler sets
  it on the zero struct, binds the body into that struct, and appends.
\<close>

definition processReceipt :: "string \<Rightarrow> body \<Rightarrow> receipt list \<Rightarrow> response \<times> receipt list" where
  "processReceipt newId b receipts =
     (let newReceipt = zero_receipt\<lparr>ID := newId\<rparr>
      in case BindJSON b newReceipt of
           None \<Rightarrow> (BadRequest ''The receipt is invalid'', receipts)
         | Some newReceipt \<Rightarrow> (OK_id newId, receipts @ [newReceipt]))"

subsection \<open>getReceiptById\<close>

text \<open>
  The first receipt of the slice with the identifier; the pointer \<open>&receipts[i]\<close> is
  the index \<open>i\<close>, \<open>None\<close> is the error.
\<close>

fun getReceiptById :: "string \<Rightarrow> receipt list \<Rightarrow> nat option" where
  "getReceiptById ident [] = None"
| "getReceiptById ident (r # rs) =
     (if ID r = ident then Some 0 else map_option Suc (getReceiptById ident rs))"

subsection \<open>getPoints\<close>

text \<open>Lines 91 to 96: one point for every letter or digit of the retailer name.\<close>

definition scoreRetailer :: "go_env \<Rightarrow> string \<Rightarrow> 64 word \<Rightarrow> 64 word" where
  "scoreRetailer E retailer pointTotal =
     fold (\<lambda>char pt. if unicode_IsLetter E char \<or> unicode_IsDigit E char then pt + 1 else pt)
       (runes retailer) pointTotal"

text \<open>Lines 105 to 113: 50 points for a round total, 25 for a multiple of 0.25.\<close>

definition roundDollar :: "float64 \<Rightarrow> 64 word" where
  "roundDollar totalFloat = (if float64_is_zero (math_Mod totalFloat (Finite 1)) then 50 else 0)"

definition quarterMultiple :: "float64 \<Rightarrow> 64 word" where
  "quarterMultiple totalFloat =
     (if float64_is_zero (math_Mod totalFloat (float64_of_rat (25 / 100))) then 25 else 0)"

text \<open>Lines 98 to 113: the total is parsed, then the two rules are applied one after the other.\<close>

definition scoreTotal :: "go_env \<Rightarrow> string \<Rightarrow> 64 word \<Rightarrow> response + 64 word" where
  "scoreTotal E receiptTotal pointTotal =
     (case strconv_ParseFloat E receiptTotal of
        None \<Rightarrow> Inl (BadRequest ''Unable to calculate points (invalid total)'')
      | Some totalFloat \<Rightarrow> Inr (pointTotal + roundDollar totalFloat + quarterMultiple totalFloat))"

text \<open>Line 116: five points for every two items.\<close>

definition scorePairs :: "item list \<Rightarrow> 64 word \<Rightarrow> 64 word" where
  "scorePairs its pointTotal = pointTotal + of_nat (length its div 2) * 5"

text \<open>Line 131: \<open>int(math.Ceil(priceFloat * .2))\<close>, with \<open>.2\<close> the float64 nearest to 0.2.\<close>

definition priceBonus :: "go_env \<Rightarrow> float64 \<Rightarrow> 64 word" where
  "priceBonus E priceFloat =
     int_of_float64 (int_out_of_range E)
       (math_Ceil (float64_mul priceFloat (float64_of_rat (2 / 10))))"

text \<open>
  Lines 121 to 133, the loop over the items: the price is parsed inside the test on
  the trimmed description, and a price that does not parse ends the handler.
\<close>

fun scoreItems :: "go_env \<Rightarrow> item list \<Rightarrow> 64 word \<Rightarrow> response + 64 word" where
  "scoreItems E [] pointTotal = Inr pointTotal"
| "scoreItems E (it # its) pointTotal =
     (if length (strings_TrimSpace E (ShortDescription it)) mod 3 = 0 then
        (case strconv_ParseFloat E (Price it) of
           None \<Rightarrow> Inl (BadRequest ''Unable to calculate points (invalid item price(s))'')
         | Some priceFloat \<Rightarrow> scoreItems E its (pointTotal + priceBonus E priceFloat))
      else scoreItems E its pointTotal)"

text \<open>
  Lines 136 to 144: the day is bytes 8 and 9 of the date; \<open>%\<close> is Go's remainder,
  which has the sign of the dividend.
\<close>

definition scoreDate :: "string \<Rightarrow> 64 word \<Rightarrow> response + 64 word" where
  "scoreDate purchaseDate pointTotal =
     (case slice purchaseDate 8 10 of
        None \<Rightarrow> Inl Panic
      | Some dd \<Rightarrow>
          (case strconv_Atoi dd of
             None \<Rightarrow> Inl (BadRequest ''Unable to calculate points (invalid date of purchase)'')
           | Some dayInt \<Rightarrow> Inr (if dayInt smod 2 = 1 then pointTotal + 6 else pointTotal)))"

text \<open>Lines 147 to 155: the hour is bytes 0 and 1 of the time.\<close>

definition scoreTime :: "string \<Rightarrow> 64 word \<Rightarrow> response + 64 word" where
  "scoreTime purchaseTime pointTotal =
     (case slice purchaseTime 0 2 of
        None \<Rightarrow> Inl Panic
      | Some hh \<Rightarrow>
          (case strconv_Atoi hh of
             None \<Rightarrow> Inl (BadRequest ''Unable to calculate points (invalid time of purchase)'')
           | Some hourInt \<Rightarrow>
               Inr (if hourInt = 14 \<or> hourInt = 15 then pointTotal + 10 else pointTotal)))"

text \<open>An early \<open>return\<close> of the handler skips what follows.\<close>

definition and_then :: "response + 'a \<Rightarrow> ('a \<Rightarrow> response + 'b) \<Rightarrow> response + 'b" where
  "and_then m f = (case m of Inl resp \<Rightarrow> Inl resp | Inr x \<Rightarrow> f x)"

text \<open>The test of line 122: the item is one whose price the loop parses.\<close>

definition scored :: "go_env \<Rightarrow> item \<Rightarrow> bool" where
  "scored E it = (length (strings_TrimSpace E (ShortDescription it)) mod 3 = 0)"

text \<open>A tally raised by \<open>c\<close> points, where there is one.\<close>

definition raised :: "64 word \<Rightarrow> response + 64 word \<Rightarrow> response + 64 word" where
  "raised c m = (case m of Inl resp \<Rightarrow> Inl resp | Inr v \<Rightarrow> Inr (v + c))"

text \<open>Lines 89 to 155: the running tally, in the order of the source.\<close>

definition calculatePoints :: "go_env \<Rightarrow> receipt \<Rightarrow> response + 64 word" where
  "calculatePoints E r =
     and_then (scoreTotal E (Total r) (scoreRetailer E (Retailer r) 0)) (\<lambda>pointTotal.
     and_then (scoreItems E (Items r) (scorePairs (Items r) pointTotal)) (\<lambda>pointTotal.
     and_then (scoreDate (PurchaseDate r) pointTotal) (\<lambda>pointTotal.
     scoreTime (PurchaseTime r) pointTotal)))"

text \<open>
  The handler: look the receipt up, answer the stored points when they are not 0,
  otherwise compute them, write them through the pointer and answer them.
\<close>

definition getPoints :: "go_env \<Rightarrow> string \<Rightarrow> receipt list \<Rightarrow> response \<times> receipt list" where
  "getPoints E ident receipts =
     (case getReceiptById ident receipts of
        None \<Rightarrow> (NotFound ''No receipt found for that id'', receipts)
      | Some i \<Rightarrow>
          (let r = receipts ! i
           in if Points r \<noteq> 0 then (OK_points (Points r), receipts)
              else (case calculatePoints E r of
                      Inl resp \<Rightarrow> (resp, receipts)
                    | Inr pointTotal \<Rightarrow>
                        (OK_points pointTotal, receipts[i := r\<lparr>Points := pointTotal\<rparr>]))))"

subsection \<open>The service\<close>

definition getReceipts :: "receipt list \<Rightarrow> response \<times> receipt list" where
  "getReceipts receipts = (OK_receipts receipts, receipts)"

text \<open>
  The three routes of \<open>main\<close>; requests are served one after the other.
  \<open>GET_points ident\<close> is the request for \<open>/receipts/ident/points\<close>. The parameter
  \<open>:id\<close> of the route is one path segment: a path whose \<open>ident\<close> holds a \<open>/\<close>
  matches no route, and \<open>getPoints\<close> is never called with such an identifier.
\<close>

definition routed :: "go_env \<Rightarrow> string \<Rightarrow> bool" where
  "routed E ident = (CHR ''/'' \<notin> set ident \<and> (gin_empty_param E \<or> ident \<noteq> []))"

datatype request = POST_process string payload | GET_points string | GET_receipts

fun handle :: "go_env \<Rightarrow> request \<Rightarrow> receipt list \<Rightarrow> response \<times> receipt list" where
  "handle E (POST_process newId p) receipts = processReceipt newId (decodeJSON p) receipts"
| "handle E (GET_points ident) receipts =
     (if routed E ident then getPoints E ident receipts else (NoRoute, receipts))"
| "handle E GET_receipts receipts = getReceipts receipts"

fun serve :: "go_env \<Rightarrow> request list \<Rightarrow> receipt list \<Rightarrow> receipt list" where
  "serve E [] receipts = receipts"
| "serve E (q # qs) receipts = serve E qs (snd (handle E q receipts))"

subsection \<open>A reference environment\<close>

text \<open>
  For evaluation on concrete receipts: an environment that agrees with the Go library
  on ASCII text and on plain decimal numerals (an optional sign, digits, at most one
  point, at least one digit), which is all that the closed theorems below give it.
  Go's \<open>ParseFloat\<close> also reads exponents, hexadecimal floats, underscores, \<open>Inf\<close>
  and \<open>NaN\<close>; those are outside this environment. The value for \<open>int(f)\<close> out of
  range is the one of amd64, and an empty path segment is not matched.
\<close>

definition parse_decimal :: "string \<Rightarrow> float64 option" where
  "parse_decimal s =
     (let has_sign = (s \<noteq> [] \<and> (hd s = CHR ''-'' \<or> hd s = CHR ''+''));
          ds = (if has_sign then tl s else s);
          ip = takeWhile is_digit ds;
          rest = dropWhile is_digit ds;
          fp = (if rest \<noteq> [] \<and> hd rest = CHR ''.'' then takeWhile is_digit (tl rest) else []);
          after = (if rest \<noteq> [] \<and> hd rest = CHR ''.'' then dropWhile is_digit (tl rest) else rest);
          m = of_int (digits_value (ip @ fp)) / 10 ^ length fp
      in if (ip = [] \<and> fp = []) \<or> after \<noteq> [] then None
         else (case float64_of_rat (if s \<noteq> [] \<and> hd s = CHR ''-'' then - m else m) of
                 Finite x \<Rightarrow> Some (Finite x)
               | _ \<Rightarrow> None))"

definition ascii_space :: "char \<Rightarrow> bool" where
  "ascii_space c = ((of_char c :: nat) \<in> {9, 10, 11, 12, 13, 32})"

definition trim_ascii :: "string \<Rightarrow> string" where
  "trim_ascii s = rev (dropWhile ascii_space (rev (dropWhile ascii_space s)))"

definition ascii_letter :: "nat \<Rightarrow> bool" where
  "ascii_letter c = ((65 \<le> c \<and> c \<le> 90) \<or> (97 \<le> c \<and> c \<le> 122))"

definition ascii_digit :: "nat \<Rightarrow> bool" where
  "ascii_digit c = (48 \<le> c \<and> c \<le> 57)"

definition ref_env :: go_env where
  "ref_env = \<lparr>strconv_ParseFloat = parse_decimal, strings_TrimSpace = trim_ascii,
     unicode_IsLetter = ascii_letter, unicode_IsDigit = ascii_digit,
     int_out_of_range = (\<lambda>_. 9223372036854775808), gin_empty_param = False\<rparr>"

subsection \<open>Example receipts\<close>

text \<open>The receipt of the specification's scenario A.\<close>

definition target :: receipt where
  "target = \<lparr>Retailer = ''Target'', PurchaseDate = ''2022-01-01'', PurchaseTime = ''13:01'',
     Items = [\<lparr>ShortDescription = ''Mountain Dew 12PK'', Price = ''6.49''\<rparr>,
              \<lparr>ShortDescription = ''Emils Cheese Pizza'', Price = ''12.25''\<rparr>,
              \<lparr>ShortDescription = ''Knorr Creamy Chicken'', Price = ''1.26''\<rparr>,
              \<lparr>ShortDescription = ''Doritos Nacho Cheese'', Price = ''3.35''\<rparr>,
              \<lparr>ShortDescription = ''   Klarbrunn 12-PK 12 FL OZ  '', Price = ''12.00''\<rparr>],
     Total = ''35.35'', ID = ''target-1'', Points = 0\<rparr>"

text \<open>A receipt with no items, an even day and a round total.\<close>

definition corner :: receipt where
  "corner = \<lparr>Retailer = ''M'', PurchaseDate = ''2022-01-02'', PurchaseTime = ''13:01'',
     Items = [], Total = ''9.00'', ID = ''corner-1'', Points = 0\<rparr>"

text \<open>A receipt that no rule gives a point.\<close>

definition no_points :: receipt where
  "no_points = \<lparr>Retailer = ''--'', PurchaseDate = ''2022-01-02'', PurchaseTime = ''13:01'',
     Items = [], Total = ''1.10'', ID = ''zero-1'', Points = 0\<rparr>"

text \<open>The body \<open>{}\<close>: a JSON object with none of the keys of a receipt.\<close>

definition empty_payload :: receipt_object where
  "empty_payload = \<lparr>object_retailer = None, object_purchaseDate = None,
     object_purchaseTime = None, object_items = None, object_total = None, object_id = None,
     object_points = None\<rparr>"

text \<open>An environment in which no number parses: a query that answers under it has parsed none.\<close>

definition no_parse_env :: go_env where
  "no_parse_env = ref_env\<lparr>strconv_ParseFloat := (\<lambda>_. None)\<rparr>"

section \<open>Lemmas\<close>

subsection \<open>Evaluation of the float64 model on numerals\<close>

lemma floor_rat_numeral [simp]: "\<lfloor>(numeral a :: rat) / numeral b\<rfloor> = numeral a div numeral b"
  using floor_divide_of_int_eq [of "numeral a" "numeral b", where ?'a = rat] by simp

lemma ceiling_rat_numeral [simp]:
  "\<lceil>(numeral a :: rat) / numeral b\<rceil> = - (- numeral a div numeral b)"
  using ceiling_divide_eq_div [of "numeral a" "numeral b", where ?'a = rat] by simp

lemma bitlen_0 [simp]: "bitlen 0 = 0"
  by (simp add: bitlen.simps)

lemma bitlen_1 [simp]: "bitlen 1 = 1"
  by (simp add: bitlen.simps [of 1])

lemma bitlen_Bit0 [simp]: "bitlen (numeral (Num.Bit0 n)) = 1 + bitlen (numeral n)"
  by (subst bitlen.simps) simp

lemma bitlen_Bit1 [simp]: "bitlen (numeral (Num.Bit1 n)) = 1 + bitlen (numeral n)"
  by (subst bitlen.simps) simp

lemmas float64_eval = float64_of_rat_def binade_def round_half_even_def pow2_def Let_def

lemma float64_quarter: "float64_of_rat (1 / 4) = Finite (1 / 4)"
  by (simp add: float64_eval)

lemma float64_fifth: "float64_of_rat (1 / 5) = Finite (3602879701896397 / 18014398509481984)"
  by (simp add: float64_eval)

lemmas string_eval = strconv_Atoi_def is_digit_def digits_value_def slice_def
  parse_decimal_def trim_ascii_def ascii_space_def runes_def decode_rune_def
  ascii_letter_def ascii_digit_def signed_modulo_int_def

lemmas score_eval = scoreRetailer_def roundDollar_def quarterMultiple_def scoreTotal_def
  scorePairs_def scoreDate_def scoreTime_def and_then_def calculatePoints_def
  priceBonus_def int_of_float64_def float64_quarter float64_fifth ref_env_def

subsection \<open>getReceiptById\<close>

lemma getReceiptById_Some:
  "getReceiptById ident rs = Some i \<Longrightarrow> i < length rs \<and> ID (rs ! i) = ident"
  by (induction rs arbitrary: i) (auto split: if_splits)

lemma getReceiptById_None: "getReceiptById ident rs = None \<longleftrightarrow> ident \<notin> ID ` set rs"
  by (induction rs) auto

lemma getReceiptById_ids:
  "map ID rs = map ID rs' \<Longrightarrow> getReceiptById ident rs = getReceiptById ident rs'"
proof (induction rs arbitrary: rs')
  case Nil
  then show ?case by simp
next
  case (Cons r rs)
  then obtain r' rs'' where "rs' = r' # rs''" by (cases rs') auto
  with Cons show ?case by auto
qed

lemma getReceiptById_append:
  "getReceiptById ident (rs @ [r]) =
     (case getReceiptById ident rs of
        Some i \<Rightarrow> Some i
      | None \<Rightarrow> if ID r = ident then Some (length rs) else None)"
  by (induction rs) (auto split: option.splits)

subsection \<open>What getPoints does to the slice\<close>

lemma getPoints_cases:
  "getPoints E ident rs = (resp, rs') \<Longrightarrow>
     rs' = rs \<or>
     (\<exists>i p. getReceiptById ident rs = Some i \<and> Points (rs ! i) = 0 \<and>
        calculatePoints E (rs ! i) = Inr p \<and> resp = OK_points p \<and>
        rs' = rs[i := (rs ! i)\<lparr>Points := p\<rparr>])"
  by (auto simp: getPoints_def Let_def split: option.splits if_splits sum.splits)

lemma getPoints_ids: "map ID (snd (getPoints E ident rs)) = map ID rs"
proof -
  obtain resp rs' where g: "getPoints E ident rs = (resp, rs')" by (cases "getPoints E ident rs")
  from getPoints_cases [OF g] show ?thesis
  proof
    assume "rs' = rs" with g show ?thesis by simp
  next
    assume "\<exists>i p. getReceiptById ident rs = Some i \<and> Points (rs ! i) = 0 \<and>
        calculatePoints E (rs ! i) = Inr p \<and> resp = OK_points p \<and>
        rs' = rs[i := (rs ! i)\<lparr>Points := p\<rparr>]"
    then obtain i p where i: "getReceiptById ident rs = Some i"
      and rs': "rs' = rs[i := (rs ! i)\<lparr>Points := p\<rparr>]" by blast
    have "map ID rs' = (map ID rs)[i := ID (rs ! i)]" by (simp add: rs' map_update)
    also have "\<dots> = map ID rs" using getReceiptById_Some [OF i]
      by (simp add: list_eq_iff_nth_eq nth_list_update)
    finally show ?thesis using g by simp
  qed
qed

lemma getPoints_cached:
  "getReceiptById ident rs = Some i \<Longrightarrow> Points (rs ! i) \<noteq> 0 \<Longrightarrow>
     getPoints E ident rs = (OK_points (Points (rs ! i)), rs)"
  by (simp add: getPoints_def)

lemma getPoints_unknown:
  "ident \<notin> ID ` set rs \<Longrightarrow> getPoints E ident rs = (NotFound ''No receipt found for that id'', rs)"
  using getReceiptById_None [of ident rs] by (simp add: getPoints_def)

subsection \<open>The example receipts, evaluated\<close>

lemma calculatePoints_target: "calculatePoints ref_env target = Inr 28"
  by (simp add: target_def score_eval string_eval float64_eval)

lemma calculatePoints_corner: "calculatePoints ref_env corner = Inr 76"
  by (simp add: corner_def score_eval string_eval float64_eval)

lemma calculatePoints_no_points: "calculatePoints ref_env no_points = Inr 0"
  by (simp add: no_points_def score_eval string_eval float64_eval)

lemma parse_decimal_nine: "parse_decimal ''9.00'' = Some (Finite 9)"
  by (simp add: string_eval float64_eval)

lemma parse_decimal_abc: "parse_decimal ''abc'' = None"
  by (simp add: string_eval)

subsection \<open>Reading the slice again\<close>

text \<open>
  The answer of a query does not change when the query is repeated: either nothing was
  written, or the points written are not 0 and are the stored points from then on.
\<close>

lemma receipt_Points_same: "r\<lparr>Points := Points r\<rparr> = (r :: receipt)"
  by (cases r) simp

lemma getPoints_twice:
  "fst (getPoints E ident (snd (getPoints E ident rs))) = fst (getPoints E ident rs)"
proof -
  obtain resp rs' where g: "getPoints E ident rs = (resp, rs')" by (cases "getPoints E ident rs")
  from getPoints_cases [OF g] show ?thesis
  proof
    assume "rs' = rs" with g show ?thesis by simp
  next
    assume "\<exists>i p. getReceiptById ident rs = Some i \<and> Points (rs ! i) = 0 \<and>
        calculatePoints E (rs ! i) = Inr p \<and> resp = OK_points p \<and>
        rs' = rs[i := (rs ! i)\<lparr>Points := p\<rparr>]"
    then obtain i p where i: "getReceiptById ident rs = Some i" and z: "Points (rs ! i) = 0"
      and c: "calculatePoints E (rs ! i) = Inr p" and resp: "resp = OK_points p"
      and rs': "rs' = rs[i := (rs ! i)\<lparr>Points := p\<rparr>]" by blast
    show ?thesis
    proof (cases "p = 0")
      case True
      then have "(rs ! i)\<lparr>Points := p\<rparr> = rs ! i"
        using z receipt_Points_same [of "rs ! i"] by simp
      then have "rs' = rs" by (simp add: rs')
      with g show ?thesis by simp
    next
      case False
      have "map ID rs' = map ID rs" using getPoints_ids [of E ident rs] g by simp
      then have i': "getReceiptById ident rs' = Some i" using i getReceiptById_ids by metis
      have "Points (rs' ! i) = p" using getReceiptById_Some [OF i] rs' by simp
      with False i' have "getPoints E ident rs' = (OK_points p, rs')"
        using getPoints_cached [of ident rs' i E] by simp
      with g resp show ?thesis by simp
    qed
  qed
qed

text \<open>
  With a body that has no \<open>id\<close> key and a generated identifier that is not in the
  slice, the receipt is found under the identifier returned.
\<close>

lemma processReceipt_roundtrip:
  assumes "json_id j = None" and "newId \<notin> ID ` set receipts"
  shows "processReceipt newId (Object j) receipts
           = (OK_id newId, receipts @ [decode_into j (zero_receipt\<lparr>ID := newId\<rparr>)])
         \<and> ID (decode_into j (zero_receipt\<lparr>ID := newId\<rparr>)) = newId
         \<and> getReceiptById newId (receipts @ [decode_into j (zero_receipt\<lparr>ID := newId\<rparr>)])
           = Some (length receipts)"
proof -
  have "ID (decode_into j (zero_receipt\<lparr>ID := newId\<rparr>)) = newId"
    using assms(1) by (simp add: decode_into_def)
  then show ?thesis
    using assms(2) getReceiptById_None [of newId receipts]
    by (simp add: processReceipt_def getReceiptById_append)
qed

subsection \<open>The loop over the items\<close>

lemma scoreItems_unparseable:
  "\<exists>it \<in> set its. length (strings_TrimSpace E (ShortDescription it)) mod 3 = 0 \<and>
       strconv_ParseFloat E (Price it) = None \<Longrightarrow>
   scoreItems E its pt = Inl (BadRequest ''Unable to calculate points (invalid item price(s))'')"
proof (induction its arbitrary: pt)
  case Nil
  then show ?case by simp
next
  case (Cons it its)
  show ?case
  proof (cases "length (strings_TrimSpace E (ShortDescription it)) mod 3 = 0 \<and>
       strconv_ParseFloat E (Price it) = None")
    case True
    then show ?thesis by simp
  next
    case False
    with Cons.prems have "\<exists>it \<in> set its. length (strings_TrimSpace E (ShortDescription it)) mod 3 = 0 \<and>
       strconv_ParseFloat E (Price it) = None" by auto
    from Cons.IH [OF this] show ?thesis by (simp split: option.splits)
  qed
qed

subsection \<open>A receipt with points is never written again\<close>

text \<open>
  No handler changes the identifiers already in the slice, and \<open>getPoints\<close> writes
  only where the points are 0: the first receipt with a given identifier, once its
  points are not 0, stays as it is whatever requests follow.
\<close>

lemma processReceipt_keeps:
  assumes "getReceiptById sid rs = Some i"
  shows "getReceiptById sid (snd (processReceipt newId b rs)) = Some i
         \<and> snd (processReceipt newId b rs) ! i = rs ! i"
proof (cases "BindJSON b (zero_receipt\<lparr>ID := newId\<rparr>)")
  case None
  then show ?thesis using assms by (simp add: processReceipt_def)
next
  case (Some r)
  then show ?thesis
    using assms getReceiptById_Some [OF assms]
    by (simp add: processReceipt_def getReceiptById_append nth_append)
qed

lemma getPoints_keeps:
  assumes "getReceiptById sid rs = Some i" and "Points (rs ! i) \<noteq> 0"
  shows "getReceiptById sid (snd (getPoints E ident rs)) = Some i
         \<and> snd (getPoints E ident rs) ! i = rs ! i"
proof -
  obtain resp rs' where g: "getPoints E ident rs = (resp, rs')" by (cases "getPoints E ident rs")
  have "map ID rs' = map ID rs" using getPoints_ids [of E ident rs] g by simp
  then have 1: "getReceiptById sid rs' = Some i" using assms(1) getReceiptById_ids by metis
  from getPoints_cases [OF g] have "rs' ! i = rs ! i"
  proof
    assume "rs' = rs" then show ?thesis by simp
  next
    assume "\<exists>k p. getReceiptById ident rs = Some k \<and> Points (rs ! k) = 0 \<and>
        calculatePoints E (rs ! k) = Inr p \<and> resp = OK_points p \<and>
        rs' = rs[k := (rs ! k)\<lparr>Points := p\<rparr>]"
    then obtain k p where "Points (rs ! k) = 0" and rs': "rs' = rs[k := (rs ! k)\<lparr>Points := p\<rparr>]"
      by blast
    with assms(2) have "k \<noteq> i" by auto
    then show ?thesis by (simp add: rs')
  qed
  with 1 g show ?thesis by simp
qed

lemma handle_keeps:
  assumes "getReceiptById sid rs = Some i" and "Points (rs ! i) \<noteq> 0"
  shows "getReceiptById sid (snd (handle E q rs)) = Some i \<and> snd (handle E q rs) ! i = rs ! i"
proof (cases q)
  case (POST_process newId p)
  then show ?thesis using processReceipt_keeps [OF assms(1)] by simp
next
  case (GET_points ident)
  then show ?thesis using getPoints_keeps [OF assms] assms(1) by simp
next
  case GET_receipts
  then show ?thesis using assms(1) by (simp add: getReceipts_def)
qed

lemma serve_keeps:
  assumes "getReceiptById sid rs = Some i" and "Points (rs ! i) \<noteq> 0"
  shows "getReceiptById sid (serve E qs rs) = Some i \<and> serve E qs rs ! i = rs ! i"
  using assms
proof (induction qs arbitrary: rs)
  case Nil
  then show ?case by simp
next
  case (Cons q qs)
  from handle_keeps [OF Cons.prems, of E q]
  have 1: "getReceiptById sid (snd (handle E q rs)) = Some i"
    and 2: "snd (handle E q rs) ! i = rs ! i" by simp_all
  from 2 Cons.prems(2) have 3: "Points (snd (handle E q rs) ! i) \<noteq> 0" by simp
  from Cons.IH [OF 1 3] 2 show ?case by simp
qed

subsection \<open>How the computation fails\<close>

text \<open>
  When the computation of the points ends early, the answer is one of the four 400
  messages, or the handler has panicked on a date shorter than 10 bytes or a time
  shorter than 2.
\<close>

lemma scoreItems_Inl:
  "scoreItems E its pt = Inl resp \<Longrightarrow>
   resp = BadRequest ''Unable to calculate points (invalid item price(s))''"
  by (induction its arbitrary: pt) (auto split: if_splits option.splits)

lemma calculatePoints_Inl:
  assumes "calculatePoints E r = Inl resp"
  shows "resp = BadRequest ''Unable to calculate points (invalid total)''
       \<or> resp = BadRequest ''Unable to calculate points (invalid item price(s))''
       \<or> resp = BadRequest ''Unable to calculate points (invalid date of purchase)''
       \<or> resp = BadRequest ''Unable to calculate points (invalid time of purchase)''
       \<or> (resp = Panic \<and> (length (PurchaseDate r) < 10 \<or> length (PurchaseTime r) < 2))"
proof (cases "scoreTotal E (Total r) (scoreRetailer E (Retailer r) 0)")
  case (Inl a)
  then show ?thesis using assms
    by (auto simp: calculatePoints_def and_then_def scoreTotal_def split: option.splits)
next
  case t: (Inr pt1)
  show ?thesis
  proof (cases "scoreItems E (Items r) (scorePairs (Items r) pt1)")
    case (Inl a)
    then show ?thesis using assms t scoreItems_Inl [OF Inl]
      by (simp add: calculatePoints_def and_then_def)
  next
    case i: (Inr pt2)
    show ?thesis
    proof (cases "scoreDate (PurchaseDate r) pt2")
      case (Inl a)
      then have "a = resp" using assms t i by (simp add: calculatePoints_def and_then_def)
      with Inl show ?thesis
        by (auto simp: scoreDate_def slice_def split: option.splits if_splits)
    next
      case d: (Inr pt3)
      then have "scoreTime (PurchaseTime r) pt3 = Inl resp"
        using assms t i by (simp add: calculatePoints_def and_then_def)
      then show ?thesis
        by (auto simp: scoreTime_def slice_def split: option.splits if_splits)
    qed
  qed
qed

subsection \<open>A tally raised before a rule is raised after it\<close>

text \<open>
  Every rule adds to the tally it is given, so points added before a rule are points
  added to its result; and the handler answers with what the rules compute when the
  receipt has no points yet.
\<close>

lemma raised_simps [simp]: "raised c (Inl resp) = Inl resp" "raised c (Inr v) = Inr (v + c)"
  by (simp_all add: raised_def)

lemma and_then_simps [simp]: "and_then (Inl resp) f = Inl resp" "and_then (Inr v) f = f v"
  by (simp_all add: and_then_def)

lemma and_then_raised:
  assumes "\<And>p. f (p + c) = raised c (f p)"
  shows "and_then (raised c m) f = raised c (and_then m f)"
  using assms by (cases m) simp_all

lemma scoreItems_raised: "scoreItems E its (pt + c) = raised c (scoreItems E its pt)"
proof (induction its arbitrary: pt)
  case Nil
  then show ?case by simp
next
  case (Cons it its)
  have swap: "pt + c + b = pt + b + c" for b by (simp add: ac_simps)
  show ?case
    by (simp add: swap Cons.IH split: option.splits)
qed

lemma scoreItems_append:
  "scoreItems E (xs @ ys) pt = and_then (scoreItems E xs pt) (scoreItems E ys)"
  by (induction xs arbitrary: pt) (simp_all split: option.splits)

lemma scoreDate_raised: "scoreDate d (pt + c) = raised c (scoreDate d pt)"
  by (simp add: scoreDate_def ac_simps split: option.splits)

lemma scoreTime_raised: "scoreTime t (pt + c) = raised c (scoreTime t pt)"
  by (simp add: scoreTime_def ac_simps split: option.splits)

lemma date_time_raised:
  "and_then (scoreDate d (pt + c)) (scoreTime t) = raised c (and_then (scoreDate d pt) (scoreTime t))"
  by (simp add: scoreDate_raised and_then_raised [where f = "scoreTime t"] scoreTime_raised)

lemma getPoints_computes:
  assumes "getReceiptById ident receipts = Some i" and "Points (receipts ! i) = 0"
    and "calculatePoints E (receipts ! i) = Inr score"
  shows "getPoints E ident receipts
           = (OK_points score, receipts[i := (receipts ! i)\<lparr>Points := score\<rparr>])"
  using assms by (simp add: getPoints_def)

text \<open>An item that earns the bonus, against the same list with an item that earns none.\<close>

lemma scoreItems_bonus_item:
  assumes "length (strings_TrimSpace E (ShortDescription it)) mod 3 = 0"
    and "strconv_ParseFloat E (Price it) = Some priceFloat"
    and "length (strings_TrimSpace E (ShortDescription plain)) mod 3 \<noteq> 0"
  shows "scoreItems E (before @ it # after) pt
           = raised (priceBonus E priceFloat) (scoreItems E (before @ plain # after) pt)"
proof -
  have 1: "scoreItems E (it # after) p = raised (priceBonus E priceFloat) (scoreItems E after p)" for p
    using assms(1,2) by (simp add: scoreItems_raised)
  have 2: "scoreItems E (plain # after) p = scoreItems E after p" for p
    using assms(3) by simp
  show ?thesis
  proof (cases "scoreItems E before pt")
    case (Inl a)
    then show ?thesis by (simp add: scoreItems_append)
  next
    case (Inr p)
    then show ?thesis by (simp only: scoreItems_append and_then_simps 1 2)
  qed
qed

lemma calculatePoints_bonus_item:
  assumes "length (strings_TrimSpace E (ShortDescription it)) mod 3 = 0"
    and "strconv_ParseFloat E (Price it) = Some priceFloat"
    and "length (strings_TrimSpace E (ShortDescription plain)) mod 3 \<noteq> 0"
  shows "calculatePoints E (r\<lparr>Items := before @ it # after\<rparr>)
           = raised (priceBonus E priceFloat)
               (calculatePoints E (r\<lparr>Items := before @ plain # after\<rparr>))"
proof -
  let ?c = "priceBonus E priceFloat"
  have pairs: "scorePairs (before @ it # after) p = scorePairs (before @ plain # after) p" for p
    by (simp add: scorePairs_def)
  show ?thesis
  proof (cases "scoreTotal E (Total r) (scoreRetailer E (Retailer r) 0)")
    case (Inl a)
    then show ?thesis by (simp add: calculatePoints_def)
  next
    case (Inr p1)
    let ?m = "scoreItems E (before @ plain # after) (scorePairs (before @ plain # after) p1)"
    have "calculatePoints E (r\<lparr>Items := before @ it # after\<rparr>)
            = and_then (raised ?c ?m)
                (\<lambda>p. and_then (scoreDate (PurchaseDate r) p) (scoreTime (PurchaseTime r)))"
      using Inr scoreItems_bonus_item [OF assms, of before after "scorePairs (before @ plain # after) p1"]
      by (simp add: calculatePoints_def pairs)
    also have "\<dots> = raised ?c (and_then ?m
                (\<lambda>p. and_then (scoreDate (PurchaseDate r) p) (scoreTime (PurchaseTime r))))"
      by (rule and_then_raised) (rule date_time_raised)
    also have "\<dots> = raised ?c (calculatePoints E (r\<lparr>Items := before @ plain # after\<rparr>))"
      using Inr by (simp add: calculatePoints_def)
    finally show ?thesis .
  qed
qed

lemma priceBonus_ceiling:
  assumes "float64_mul priceFloat (float64_of_rat (2 / 10)) = Finite y"
    and "- (2 ^ 63) \<le> \<lceil>y\<rceil>" and "\<lceil>y\<rceil> < 2 ^ 63"
  shows "priceBonus E priceFloat = word_of_int \<lceil>y\<rceil>"
  using assms unfolding priceBonus_def by (simp add: int_of_float64_def)

subsection \<open>Which prices the loop parses\<close>

text \<open>
  The loop fails on an item only when it scores the item, and prices of items that
  it does not score have no effect on the result.
\<close>

lemma scoreItems_fails:
  "scoreItems E its pt = Inl resp \<Longrightarrow>
   \<exists>it \<in> set its. scored E it \<and> strconv_ParseFloat E (Price it) = None"
  by (induction its arbitrary: pt) (auto simp: scored_def split: if_splits option.splits)

lemma scoreItems_unscored_prices:
  "list_all2 (\<lambda>a b. ShortDescription b = ShortDescription a \<and> (scored E a \<longrightarrow> Price b = Price a))
     its its' \<Longrightarrow>
   scoreItems E its pt = scoreItems E its' pt"
proof (induction its its' arbitrary: pt rule: list_all2_induct)
  case Nil
  then show ?case by simp
next
  case (Cons a its b its')
  then show ?case by (simp add: scored_def split: option.splits)
qed

lemma calculatePoints_unscored_prices:
  assumes "list_all2 (\<lambda>a b. ShortDescription b = ShortDescription a
             \<and> (scored E a \<longrightarrow> Price b = Price a)) (Items r) its'"
  shows "calculatePoints E (r\<lparr>Items := its'\<rparr>) = calculatePoints E r"
proof -
  have "length its' = length (Items r)" using assms by (simp add: list_all2_lengthD)
  then have "scorePairs its' p = scorePairs (Items r) p" for p by (simp add: scorePairs_def)
  then show ?thesis
    using scoreItems_unscored_prices [OF assms] by (simp add: calculatePoints_def)
qed

lemma calculatePoints_price_error:
  assumes "calculatePoints E r = Inl (BadRequest ''Unable to calculate points (invalid item price(s))'')"
    and "strconv_ParseFloat E (Total r) \<noteq> None"
  shows "\<exists>it \<in> set (Items r). scored E it \<and> strconv_ParseFloat E (Price it) = None"
proof -
  obtain tf where tf: "strconv_ParseFloat E (Total r) = Some tf" using assms(2) by auto
  define p1 where "p1 = scoreRetailer E (Retailer r) 0 + roundDollar tf + quarterMultiple tf"
  have t: "scoreTotal E (Total r) (scoreRetailer E (Retailer r) 0) = Inr p1"
    by (simp add: scoreTotal_def tf p1_def)
  show ?thesis
  proof (cases "scoreItems E (Items r) (scorePairs (Items r) p1)")
    case (Inl a)
    then show ?thesis by (rule scoreItems_fails)
  next
    case i: (Inr p2)
    show ?thesis
    proof (cases "scoreDate (PurchaseDate r) p2")
      case (Inl a)
      then have "a = BadRequest ''Unable to calculate points (invalid item price(s))''"
        using assms(1) t i by (simp add: calculatePoints_def)
      with Inl show ?thesis
        by (auto simp: scoreDate_def split: option.splits if_splits)
    next
      case (Inr p3)
      then have "scoreTime (PurchaseTime r) p3
                   = Inl (BadRequest ''Unable to calculate points (invalid item price(s))'')"
        using assms(1) t i by (simp add: calculatePoints_def)
      then show ?thesis
        by (auto simp: scoreTime_def split: option.splits if_splits)
    qed
  qed
qed

lemma scoreItems_same_scored:
  "list_all2 (\<lambda>a b. scored E b = scored E a \<and> (scored E a \<longrightarrow> Price b = Price a)) its its' \<Longrightarrow>
   scoreItems E its pt = scoreItems E its' pt"
proof (induction its its' arbitrary: pt rule: list_all2_induct)
  case Nil
  then show ?case by simp
next
  case (Cons a its b its')
  then show ?case by (simp add: scored_def split: option.splits)
qed

lemma calculatePoints_same_scored:
  assumes "list_all2 (\<lambda>a b. scored E b = scored E a \<and> (scored E a \<longrightarrow> Price b = Price a))
             (Items r) its'"
  shows "calculatePoints E (r\<lparr>Items := its'\<rparr>) = calculatePoints E r"
proof -
  have "length its' = length (Items r)" using assms by (simp add: list_all2_lengthD)
  then have "scorePairs its' p = scorePairs (Items r) p" for p by (simp add: scorePairs_def)
  then show ?thesis
    using scoreItems_same_scored [OF assms] by (simp add: calculatePoints_def)
qed

lemma calculatePoints_scored_item:
  assumes "Items r = before @ it # after"
    and "scored E it" and "scored E other" and "Price other = Price it"
  shows "calculatePoints E (r\<lparr>Items := before @ other # after\<rparr>) = calculatePoints E r"
proof (rule calculatePoints_same_scored)
  have "list_all2 (\<lambda>a b. scored E b = scored E a \<and> (scored E a \<longrightarrow> Price b = Price a)) xs xs" for xs
    by (simp add: list_all2_same)
  then show "list_all2 (\<lambda>a b. scored E b = scored E a \<and> (scored E a \<longrightarrow> Price b = Price a))
     (Items r) (before @ other # after)"
    using assms by (simp add: list_all2_appendI)
qed

subsection \<open>More evaluations\<close>

lemma parse_decimal_649:
  "parse_decimal ''6.49'' = Some (Finite (3653545197704315 / 562949953421312))"
  by (simp add: string_eval float64_eval)

lemma product_649:
  "float64_mul (Finite (3653545197704315 / 562949953421312)) (float64_of_rat (2 / 10))
     = Finite (730709039540863 / 562949953421312)"
  by (simp add: float64_fifth float64_eval)

lemma calculatePoints_target_midnight:
  "calculatePoints ref_env (target\<lparr>PurchaseTime := ''00:00''\<rparr>) = Inr 28"
  by (simp add: target_def score_eval string_eval float64_eval)

subsection \<open>Which payloads bind\<close>

text \<open>The decoder fails exactly on the payloads that \<open>binds\<close> excludes.\<close>

lemma string_typed_field: "string_typed v \<longleftrightarrow> string_field v \<noteq> None"
  by (cases v rule: string_typed.cases) simp_all

lemma int_typed_field: "int_typed v \<longleftrightarrow> int_field v \<noteq> None"
  by (cases v rule: int_typed.cases) (simp_all split: option.splits)

lemma element_typed_item: "element_typed e \<longleftrightarrow> item_element e \<noteq> None"
  by (cases e) (auto simp: string_typed_field split: option.splits)

lemma list_all_element_typed:
  "list_all element_typed es \<longleftrightarrow> those (map item_element es) \<noteq> None"
  by (induction es) (auto simp: element_typed_item split: option.splits)

lemma items_typed_field: "items_typed v \<longleftrightarrow> items_field v \<noteq> None"
  by (cases v rule: items_typed.cases) (simp_all add: list_all_element_typed)

lemma binds_decodeJSON: "binds p \<longleftrightarrow> decodeJSON p \<noteq> Malformed"
  by (cases p)
    (auto simp: decode_object_def string_typed_field int_typed_field items_typed_field
      split: option.splits)

lemma decodeJSON_Malformed: "decodeJSON p = Malformed \<longleftrightarrow> \<not> binds p"
  by (simp add: binds_decodeJSON)

section \<open>The claims\<close>

subsection \<open>C1: the identifier returned and the identifier stored\<close>

text \<open>
  Claim C1 says that the identifier returned by a submission is the one under which
  the receipt is found, the stored \<open>id\<close> never coming from the client. The handler
  sets the generated identifier on the struct before it binds the body, and the body
  may carry an \<open>id\<close> of its own: for the body \<open>{"total": "9.00", "id": "mine"}\<close>
  the receipt is stored under \<open>mine\<close>, the answer is the generated \<open>uuid-1\<close>, and
  the query for \<open>uuid-1\<close> is answered 404.
\<close>

theorem C1_client_id_replaces_generated_id:
  "processReceipt ''uuid-1'' (Object (empty_object\<lparr>json_total := Some ''9.00'', json_id := Some ''mine''\<rparr>)) []
     = (OK_id ''uuid-1'', [zero_receipt\<lparr>Total := ''9.00'', ID := ''mine''\<rparr>])
   \<and> getPoints ref_env ''uuid-1'' [zero_receipt\<lparr>Total := ''9.00'', ID := ''mine''\<rparr>]
     = (NotFound ''No receipt found for that id'', [zero_receipt\<lparr>Total := ''9.00'', ID := ''mine''\<rparr>])"
  by (simp add: processReceipt_def decode_into_def empty_object_def zero_receipt_def getPoints_def)

subsection \<open>C2: points that are 0 are not cached\<close>

text \<open>
  Claim C2 says that the second query for an identifier does not compute the points
  again, also when they are 0. The handler takes stored points of 0 for points not yet
  computed. The receipt \<open>no_points\<close> scores 0: its query answers 0 and leaves the
  slice as it was, and a second query, put to an environment in which no number
  parses, fails on the total, which it has therefore parsed again. The second query for
  \<open>target\<close>, whose 28 points were written, answers 28 in that environment.
\<close>

theorem C2_zero_score_is_computed_again:
  "getPoints ref_env ''zero-1'' [no_points] = (OK_points 0, [no_points])
   \<and> getPoints no_parse_env ''zero-1'' (snd (getPoints ref_env ''zero-1'' [no_points]))
     = (BadRequest ''Unable to calculate points (invalid total)'', [no_points])
   \<and> getPoints no_parse_env ''target-1'' (snd (getPoints ref_env ''target-1'' [target]))
     = (OK_points 28, [target\<lparr>Points := 28\<rparr>])"
proof -
  have a: "getPoints ref_env ''zero-1'' [no_points] = (OK_points 0, [no_points])"
    by (simp add: getPoints_def calculatePoints_no_points) (simp add: no_points_def)
  have b: "getPoints ref_env ''target-1'' [target] = (OK_points 28, [target\<lparr>Points := 28\<rparr>])"
    by (simp add: getPoints_def calculatePoints_target) (simp add: target_def)
  have c: "getPoints no_parse_env ''zero-1'' [no_points]
     = (BadRequest ''Unable to calculate points (invalid total)'', [no_points])"
    by (simp add: getPoints_def no_points_def no_parse_env_def calculatePoints_def scoreTotal_def
        and_then_def)
  have d: "getPoints no_parse_env ''target-1'' [target\<lparr>Points := 28\<rparr>]
     = (OK_points 28, [target\<lparr>Points := 28\<rparr>])"
    by (simp add: getPoints_def target_def)
  show ?thesis by (simp add: a b c d)
qed

subsection \<open>C3: a date or a time too short for its slice\<close>

text \<open>
  Claim C3 says that a receipt whose date or time is too short for the slice
  expressions \<open>[8:10]\<close> and \<open>[0:2]\<close> is answered with a client error, as every
  other field that does not parse. The handler slices without a test of the length:
  the date \<open>2022-1-1\<close> (8 bytes) and the time \<open>9\<close> (1 byte) end the handler in a
  panic, where the date \<open>2022-01-xx\<close> is answered 400.
\<close>

theorem C3_short_date_or_time_panics:
  "getPoints ref_env ''corner-1'' [corner\<lparr>PurchaseDate := ''2022-1-1''\<rparr>]
     = (Panic, [corner\<lparr>PurchaseDate := ''2022-1-1''\<rparr>])
   \<and> getPoints ref_env ''corner-1'' [corner\<lparr>PurchaseTime := ''9''\<rparr>]
     = (Panic, [corner\<lparr>PurchaseTime := ''9''\<rparr>])
   \<and> getPoints ref_env ''corner-1'' [corner\<lparr>PurchaseDate := ''2022-01-xx''\<rparr>]
     = (BadRequest ''Unable to calculate points (invalid date of purchase)'',
        [corner\<lparr>PurchaseDate := ''2022-01-xx''\<rparr>])"
proof -
  have a: "calculatePoints ref_env (corner\<lparr>PurchaseDate := ''2022-1-1''\<rparr>) = Inl Panic"
    by (simp add: corner_def score_eval string_eval float64_eval)
  have b: "calculatePoints ref_env (corner\<lparr>PurchaseTime := ''9''\<rparr>) = Inl Panic"
    by (simp add: corner_def score_eval string_eval float64_eval)
  have c: "calculatePoints ref_env (corner\<lparr>PurchaseDate := ''2022-01-xx''\<rparr>)
     = Inl (BadRequest ''Unable to calculate points (invalid date of purchase)'')"
    by (simp add: corner_def score_eval string_eval float64_eval)
  have i: "ID corner = ''corner-1''" "Points corner = 0" by (simp_all add: corner_def)
  show ?thesis by (simp add: getPoints_def a b c i)
qed

subsection \<open>C4: the prices that are parsed\<close>

text \<open>
  Claim C4 says that an item price that does not parse fails the query, whatever the
  description of the item is. The handler parses a price only inside the test of the
  trimmed description's length: with the total \<open>9.00\<close> (which parses, \<open>abc\<close> does
  not) and the one item \<open>(ab, abc)\<close>, the query is answered 200 with 76 points. And a
  receipt that carries points is answered with them before any price is read: with the
  item \<open>(abc, abc)\<close> and 7 stored points the answer is 7.
\<close>

theorem C4_counterexample:
  "strconv_ParseFloat ref_env ''9.00'' = Some (Finite 9)
   \<and> strconv_ParseFloat ref_env ''abc'' = None
   \<and> getPoints ref_env ''corner-1'' [corner\<lparr>Items := [\<lparr>ShortDescription = ''ab'', Price = ''abc''\<rparr>]\<rparr>]
     = (OK_points 76, [corner\<lparr>Items := [\<lparr>ShortDescription = ''ab'', Price = ''abc''\<rparr>], Points := 76\<rparr>])
   \<and> getPoints ref_env ''corner-1''
        [corner\<lparr>Items := [\<lparr>ShortDescription = ''abc'', Price = ''abc''\<rparr>], Points := 7\<rparr>]
     = (OK_points 7, [corner\<lparr>Items := [\<lparr>ShortDescription = ''abc'', Price = ''abc''\<rparr>], Points := 7\<rparr>])"
proof -
  have c: "calculatePoints ref_env (corner\<lparr>Items := [\<lparr>ShortDescription = ''ab'', Price = ''abc''\<rparr>]\<rparr>)
     = Inr 76"
    by (simp add: corner_def score_eval string_eval float64_eval)
  have i: "ID corner = ''corner-1''" "Points corner = 0" by (simp_all add: corner_def)
  show ?thesis
    by (simp add: getPoints_def c i) (simp add: ref_env_def parse_decimal_nine parse_decimal_abc)
qed

text \<open>
  Claim C4, amended. For a query that finds a receipt with stored points 0 whose total
  parses: if some item whose trimmed description has a length that is a multiple of 3
  has a price that does not parse, the answer is the 400 of the item prices and the
  slice is left as it was; if the price of every such item parses, the answer is not
  that 400; and the answer does not depend on the prices of the other items, which
  may be replaced by any strings at all.
\<close>

theorem C4_scored_price_must_parse:
  assumes "getReceiptById ident receipts = Some i"
    and "Points (receipts ! i) = 0"
    and "strconv_ParseFloat E (Total (receipts ! i)) = Some totalFloat"
  shows "((\<exists>it \<in> set (Items (receipts ! i)). scored E it \<and> strconv_ParseFloat E (Price it) = None)
           \<longrightarrow> getPoints E ident receipts
                 = (BadRequest ''Unable to calculate points (invalid item price(s))'', receipts))
         \<and> ((\<forall>it \<in> set (Items (receipts ! i)). scored E it \<longrightarrow> strconv_ParseFloat E (Price it) \<noteq> None)
           \<longrightarrow> fst (getPoints E ident receipts)
                 \<noteq> BadRequest ''Unable to calculate points (invalid item price(s))'')
         \<and> (\<forall>its'. list_all2 (\<lambda>a b. ShortDescription b = ShortDescription a
                                  \<and> (scored E a \<longrightarrow> Price b = Price a)) (Items (receipts ! i)) its'
           \<longrightarrow> fst (getPoints E ident (receipts[i := (receipts ! i)\<lparr>Items := its'\<rparr>]))
                 = fst (getPoints E ident receipts))"
proof -
  let ?r = "receipts ! i"
  let ?msg = "BadRequest ''Unable to calculate points (invalid item price(s))''"
  have len: "i < length receipts" using getReceiptById_Some [OF assms(1)] by simp
  have a: "getPoints E ident receipts = (?msg, receipts)"
    if "\<exists>it \<in> set (Items ?r). scored E it \<and> strconv_ParseFloat E (Price it) = None"
  proof -
    from that have "\<exists>it \<in> set (Items ?r).
        length (strings_TrimSpace E (ShortDescription it)) mod 3 = 0 \<and>
        strconv_ParseFloat E (Price it) = None"
      by (simp add: scored_def)
    then have "calculatePoints E ?r = Inl ?msg"
      using assms(3) by (simp add: calculatePoints_def scoreTotal_def scoreItems_unparseable)
    then show ?thesis using assms(1,2) by (simp add: getPoints_def)
  qed
  have b: "fst (getPoints E ident receipts) \<noteq> ?msg"
    if all: "\<forall>it \<in> set (Items ?r). scored E it \<longrightarrow> strconv_ParseFloat E (Price it) \<noteq> None"
  proof (cases "calculatePoints E ?r")
    case (Inl resp)
    have "resp \<noteq> ?msg"
    proof
      assume "resp = ?msg"
      with Inl assms(3) calculatePoints_price_error [of E ?r] all show False by auto
    qed
    with Inl show ?thesis using assms(1,2) by (simp add: getPoints_def)
  next
    case (Inr p)
    then show ?thesis using assms(1,2) by (simp add: getPoints_def)
  qed
  have c: "fst (getPoints E ident (receipts[i := ?r\<lparr>Items := its'\<rparr>]))
             = fst (getPoints E ident receipts)"
    if l: "list_all2 (\<lambda>a b. ShortDescription b = ShortDescription a
             \<and> (scored E a \<longrightarrow> Price b = Price a)) (Items ?r) its'" for its'
  proof -
    let ?rs = "receipts[i := ?r\<lparr>Items := its'\<rparr>]"
    have "map ID ?rs = (map ID receipts)[i := ID ?r]" by (simp add: map_update)
    also have "\<dots> = map ID receipts" using len by (simp add: list_eq_iff_nth_eq nth_list_update)
    finally have look: "getReceiptById ident ?rs = Some i"
      using assms(1) getReceiptById_ids [of ?rs receipts ident] by simp
    have at: "?rs ! i = ?r\<lparr>Items := its'\<rparr>" using len by simp
    have calc: "calculatePoints E (?rs ! i) = calculatePoints E ?r"
      using calculatePoints_unscored_prices [OF l] by (simp add: at)
    show ?thesis
    proof (cases "calculatePoints E ?r")
      case (Inl resp)
      then show ?thesis
        using look assms(1,2) len calc by (simp add: getPoints_def)
    next
      case (Inr p)
      then show ?thesis
        using look assms(1,2) len calc by (simp add: getPoints_def)
    qed
  qed
  from a b c show ?thesis by blast
qed

theorem C4_scored_price_must_parse_witness:
  "getPoints ref_env ''corner-1'' [corner\<lparr>Items := [\<lparr>ShortDescription = ''abc'', Price = ''abc''\<rparr>]\<rparr>]
     = (BadRequest ''Unable to calculate points (invalid item price(s))'',
        [corner\<lparr>Items := [\<lparr>ShortDescription = ''abc'', Price = ''abc''\<rparr>]\<rparr>])
   \<and> fst (getPoints ref_env ''corner-1''
          [corner\<lparr>Items := [\<lparr>ShortDescription = ''ab'', Price = ''abc''\<rparr>]\<rparr>])
     \<noteq> BadRequest ''Unable to calculate points (invalid item price(s))''
   \<and> fst (getPoints ref_env ''corner-1''
          [corner\<lparr>Items := [\<lparr>ShortDescription = ''ab'', Price = ''1.00''\<rparr>]\<rparr>])
     = fst (getPoints ref_env ''corner-1''
          [corner\<lparr>Items := [\<lparr>ShortDescription = ''ab'', Price = ''abc''\<rparr>]\<rparr>])"
proof -
  let ?it = "\<lparr>ShortDescription = ''abc'', Price = ''abc''\<rparr>"
  let ?un = "\<lparr>ShortDescription = ''ab'', Price = ''abc''\<rparr>"
  let ?un' = "\<lparr>ShortDescription = ''ab'', Price = ''1.00''\<rparr>"
  let ?rs = "[corner\<lparr>Items := [?it]\<rparr>]"
  let ?us = "[corner\<lparr>Items := [?un]\<rparr>]"
  have 1: "getReceiptById ''corner-1'' ?rs = Some 0" by (simp add: corner_def)
  have 2: "Points (?rs ! 0) = 0" by (simp add: corner_def)
  have 3: "strconv_ParseFloat ref_env (Total (?rs ! 0)) = Some (Finite 9)"
    by (simp add: corner_def ref_env_def parse_decimal_nine)
  have 4: "\<exists>it \<in> set (Items (?rs ! 0)). scored ref_env it \<and> strconv_ParseFloat ref_env (Price it) = None"
    by (simp add: scored_def ref_env_def string_eval)
  from C4_scored_price_must_parse [OF 1 2 3, THEN conjunct1, rule_format, OF 4]
  have a: "getPoints ref_env ''corner-1'' ?rs
             = (BadRequest ''Unable to calculate points (invalid item price(s))'', ?rs)" .
  have 5: "getReceiptById ''corner-1'' ?us = Some 0" by (simp add: corner_def)
  have 6: "Points (?us ! 0) = 0" by (simp add: corner_def)
  have 7: "strconv_ParseFloat ref_env (Total (?us ! 0)) = Some (Finite 9)"
    by (simp add: corner_def ref_env_def parse_decimal_nine)
  have 8: "\<forall>it \<in> set (Items (?us ! 0)). scored ref_env it
             \<longrightarrow> strconv_ParseFloat ref_env (Price it) \<noteq> None"
    by (simp add: scored_def ref_env_def string_eval)
  have 9: "list_all2 (\<lambda>a b. ShortDescription b = ShortDescription a
             \<and> (scored ref_env a \<longrightarrow> Price b = Price a)) (Items (?us ! 0)) [?un']"
    by (simp add: scored_def ref_env_def string_eval)
  from C4_scored_price_must_parse [OF 5 6 7, THEN conjunct2, THEN conjunct1, THEN mp, OF 8]
  have b: "fst (getPoints ref_env ''corner-1'' ?us)
             \<noteq> BadRequest ''Unable to calculate points (invalid item price(s))''" .
  from C4_scored_price_must_parse [OF 5 6 7, THEN conjunct2, THEN conjunct2, rule_format, OF 9]
  have "fst (getPoints ref_env ''corner-1'' (?us[0 := (?us ! 0)\<lparr>Items := [?un']\<rparr>]))
          = fst (getPoints ref_env ''corner-1'' ?us)" .
  then have c: "fst (getPoints ref_env ''corner-1'' [corner\<lparr>Items := [?un']\<rparr>])
          = fst (getPoints ref_env ''corner-1'' ?us)"
    by simp
  from a b c show ?thesis by blast
qed

subsection \<open>C5: points supplied by the client\<close>




subsection \<open>C6: a description that trims to nothing\<close>



subsection \<open>C7: a body that does not bind\<close>

text \<open>
  Claim C7 says that a payload that does not deserialize into the expected shape of a
  receipt is answered with a client error and is not stored. The shape that the
  handler expects is less than a receipt: the struct has no \<open>binding\<close> tag, and a
  body with no field at all, \<open>{}\<close>, is answered 200 and stored, a receipt with no
  retailer, no items and no total.
\<close>

theorem C7_counterexample:
  "handle ref_env (POST_process ''uuid-2'' (Top_object empty_payload)) []
     = (OK_id ''uuid-2'', [zero_receipt\<lparr>ID := ''uuid-2''\<rparr>])
   \<and> Retailer (zero_receipt\<lparr>ID := ''uuid-2''\<rparr>) = []
   \<and> Items (zero_receipt\<lparr>ID := ''uuid-2''\<rparr>) = []
   \<and> Total (zero_receipt\<lparr>ID := ''uuid-2''\<rparr>) = []"
  by (simp add: processReceipt_def decode_object_def empty_payload_def decode_into_def
      zero_receipt_def)

text \<open>
  Claim C7, amended. A payload that is not JSON, or is JSON and neither \<open>null\<close> nor an
  object in which every key of the struct that is there has a value of the type of its
  field, is answered 400 and the slice is left as it was. Every other payload is
  answered 200 with the generated identifier, and one receipt is appended: the
  zero receipt with the fields of the payload written over it.
\<close>

theorem C7_unbound_body_stores_nothing:
  "(\<not> binds p \<longrightarrow>
      handle E (POST_process newId p) receipts = (BadRequest ''The receipt is invalid'', receipts))
   \<and> (binds p \<longrightarrow>
      (\<exists>j. decodeJSON p = Object j \<and>
         handle E (POST_process newId p) receipts
           = (OK_id newId, receipts @ [decode_into j (zero_receipt\<lparr>ID := newId\<rparr>)])))"
proof (cases "decodeJSON p")
  case Malformed
  then show ?thesis using decodeJSON_Malformed [of p] by (simp add: processReceipt_def)
next
  case (Object j)
  then show ?thesis using decodeJSON_Malformed [of p] by (simp add: processReceipt_def)
qed

theorem C7_unbound_body_stores_nothing_witness:
  "handle ref_env (POST_process ''uuid-2''
       (Top_object (empty_payload\<lparr>object_total := Some (F_string ''9.00''),
                                   object_points := Some (F_string ''7'')\<rparr>))) [target]
     = (BadRequest ''The receipt is invalid'', [target])
   \<and> handle ref_env (POST_process ''uuid-2'' Not_JSON) [target]
     = (BadRequest ''The receipt is invalid'', [target])
   \<and> handle ref_env (POST_process ''uuid-2''
       (Top_object (empty_payload\<lparr>object_total := Some (F_string ''9.00''),
                                   object_points := Some (F_number ''7'')\<rparr>))) [target]
     = (OK_id ''uuid-2'', [target, zero_receipt\<lparr>Total := ''9.00'', ID := ''uuid-2'', Points := 7\<rparr>])"
proof -
  let ?bad = "Top_object (empty_payload\<lparr>object_total := Some (F_string ''9.00''),
                                   object_points := Some (F_string ''7'')\<rparr>)"
  let ?good = "Top_object (empty_payload\<lparr>object_total := Some (F_string ''9.00''),
                                   object_points := Some (F_number ''7'')\<rparr>)"
  have 1: "\<not> binds ?bad" by (simp add: empty_payload_def)
  have 2: "\<not> binds Not_JSON" by simp
  have 3: "binds ?good" by (simp add: empty_payload_def string_eval)
  have 4: "decodeJSON ?good
             = Object (empty_object\<lparr>json_total := Some ''9.00'', json_points := Some 7\<rparr>)"
    by (simp add: decode_object_def empty_payload_def empty_object_def string_eval)
  have a: "handle ref_env (POST_process ''uuid-2'' ?bad) [target]
             = (BadRequest ''The receipt is invalid'', [target])"
    using C7_unbound_body_stores_nothing [of ?bad ref_env "''uuid-2''" "[target]"] 1 by blast
  have b: "handle ref_env (POST_process ''uuid-2'' Not_JSON) [target]
             = (BadRequest ''The receipt is invalid'', [target])"
    using C7_unbound_body_stores_nothing [of Not_JSON ref_env "''uuid-2''" "[target]"] 2 by blast
  have "\<exists>j. decodeJSON ?good = Object j \<and>
         handle ref_env (POST_process ''uuid-2'' ?good) [target]
           = (OK_id ''uuid-2'', [target] @ [decode_into j (zero_receipt\<lparr>ID := ''uuid-2''\<rparr>)])"
    using C7_unbound_body_stores_nothing [of ?good ref_env "''uuid-2''" "[target]"] 3 by blast
  then obtain j where j: "decodeJSON ?good = Object j"
    and h: "handle ref_env (POST_process ''uuid-2'' ?good) [target]
           = (OK_id ''uuid-2'', [target] @ [decode_into j (zero_receipt\<lparr>ID := ''uuid-2''\<rparr>)])"
    by blast
  from j have "j = empty_object\<lparr>json_total := Some ''9.00'', json_points := Some 7\<rparr>"
    by (simp only: 4 body.inject)
  then have "decode_into j (zero_receipt\<lparr>ID := ''uuid-2''\<rparr>)
               = zero_receipt\<lparr>Total := ''9.00'', ID := ''uuid-2'', Points := 7\<rparr>"
    by (simp add: decode_into_def empty_object_def zero_receipt_def)
  with h have c: "handle ref_env (POST_process ''uuid-2'' ?good) [target]
           = (OK_id ''uuid-2'', [target, zero_receipt\<lparr>Total := ''9.00'', ID := ''uuid-2'', Points := 7\<rparr>])"
    by (simp only: append_Cons append_Nil)
  from a b c show ?thesis by blast
qed

subsection \<open>C8: the hours 14 and 15\<close>

text \<open>
  Claim C8: for a receipt whose time parses, the rule of the time adds 10 points when
  the hour read from the first two bytes is 14 or 15, and nothing otherwise. Against
  what the receipt scores with the time \<open>00:00\<close>, it scores 10 more in the first
  case and the same in the second; the rule alone raises the tally so; a query that
  computes the points answers that score and writes it; the times \<open>14:00\<close> and
  \<open>15:59\<close> add 10, \<open>13:59\<close> and \<open>16:00\<close> add nothing; and what follows the first
  two bytes, the minutes, has no effect on the score.
\<close>

theorem C8_afternoon_bonus:
  assumes "slice (PurchaseTime r) 0 2 = Some hh"
    and "strconv_Atoi hh = Some hourInt"
    and "calculatePoints E (r\<lparr>PurchaseTime := ''00:00''\<rparr>) = Inr base"
  shows "calculatePoints E r = Inr (base + (if hourInt = 14 \<or> hourInt = 15 then 10 else 0))
         \<and> scoreTime (PurchaseTime r) pointTotal
             = Inr (pointTotal + (if hourInt = 14 \<or> hourInt = 15 then 10 else 0))
         \<and> (\<forall>ident receipts i.
               getReceiptById ident receipts = Some i \<and> receipts ! i = r \<and> Points r = 0
               \<longrightarrow> getPoints E ident receipts
                     = (OK_points (base + (if hourInt = 14 \<or> hourInt = 15 then 10 else 0)),
                        receipts[i := r\<lparr>Points := base
                           + (if hourInt = 14 \<or> hourInt = 15 then 10 else 0)\<rparr>]))
         \<and> (PurchaseTime r = ''14:00'' \<longrightarrow> calculatePoints E r = Inr (base + 10))
         \<and> (PurchaseTime r = ''13:59'' \<longrightarrow> calculatePoints E r = Inr (base + 0))
         \<and> (PurchaseTime r = ''15:59'' \<longrightarrow> calculatePoints E r = Inr (base + 10))
         \<and> (PurchaseTime r = ''16:00'' \<longrightarrow> calculatePoints E r = Inr (base + 0))
         \<and> (\<forall>minutes. calculatePoints E (r\<lparr>PurchaseTime := hh @ minutes\<rparr>) = calculatePoints E r)"
proof -
  let ?bonus = "if hourInt = 14 \<or> hourInt = 15 then 10 else 0 :: 64 word"
  have midnight: "scoreTime ''00:00'' p = Inr p" for p
    by (simp add: scoreTime_def string_eval)
  have len: "length hh = 2"
    using assms(1) by (auto simp: slice_def split: if_splits)
  have time: "scoreTime (hh @ minutes) p = Inr (p + ?bonus)" for minutes p
    using assms(2) len by (simp add: scoreTime_def slice_def)
  have same: "scoreTime (PurchaseTime r) p = Inr (p + ?bonus)" for p
    using assms(1,2) by (simp add: scoreTime_def)
  define before where "before = and_then (scoreTotal E (Total r) (scoreRetailer E (Retailer r) 0))
     (\<lambda>p. and_then (scoreItems E (Items r) (scorePairs (Items r) p))
        (\<lambda>p. scoreDate (PurchaseDate r) p))"
  have calc: "calculatePoints E (r\<lparr>PurchaseTime := t\<rparr>) = and_then before (scoreTime t)" for t
    by (simp add: calculatePoints_def before_def and_then_def split: sum.splits)
  have calc0: "calculatePoints E r = and_then before (scoreTime (PurchaseTime r))"
    by (simp add: calculatePoints_def before_def and_then_def split: sum.splits)
  have "before = Inr base"
    using assms(3) by (cases before) (simp_all add: calc midnight)
  then have c0: "calculatePoints E r = Inr (base + ?bonus)"
    and c1: "calculatePoints E (r\<lparr>PurchaseTime := hh @ minutes\<rparr>) = Inr (base + ?bonus)"
    for minutes
    by (simp_all add: calc calc0 same time)
  have 1: "getPoints E ident receipts
           = (OK_points (base + ?bonus), receipts[i := r\<lparr>Points := base + ?bonus\<rparr>])"
    if "getReceiptById ident receipts = Some i \<and> receipts ! i = r \<and> Points r = 0"
    for ident receipts i
    using getPoints_computes [of ident receipts i E "base + ?bonus"] that c0 by simp
  have a: "PurchaseTime r = ''14:00'' \<longrightarrow> calculatePoints E r = Inr (base + 10)"
    using assms(1,2) by (auto simp: c0 string_eval)
  have b: "PurchaseTime r = ''13:59'' \<longrightarrow> calculatePoints E r = Inr (base + 0)"
    using assms(1,2) by (auto simp: c0 string_eval)
  have c: "PurchaseTime r = ''15:59'' \<longrightarrow> calculatePoints E r = Inr (base + 10)"
    using assms(1,2) by (auto simp: c0 string_eval)
  have d: "PurchaseTime r = ''16:00'' \<longrightarrow> calculatePoints E r = Inr (base + 0)"
    using assms(1,2) by (auto simp: c0 string_eval)
  have e: "\<forall>minutes. calculatePoints E (r\<lparr>PurchaseTime := hh @ minutes\<rparr>) = calculatePoints E r"
    by (simp add: c0 c1)
  from c0 1 same a b c d e show ?thesis by blast
qed

theorem C8_afternoon_bonus_witness:
  "fst (getPoints ref_env ''target-1'' [target\<lparr>PurchaseTime := ''14:00''\<rparr>]) = OK_points 38
   \<and> fst (getPoints ref_env ''target-1'' [target\<lparr>PurchaseTime := ''13:59''\<rparr>]) = OK_points 28
   \<and> fst (getPoints ref_env ''target-1'' [target\<lparr>PurchaseTime := ''15:59''\<rparr>]) = OK_points 38
   \<and> fst (getPoints ref_env ''target-1'' [target\<lparr>PurchaseTime := ''16:00''\<rparr>]) = OK_points 28
   \<and> getPoints ref_env ''target-1'' [target\<lparr>PurchaseTime := ''15:07''\<rparr>]
       = (OK_points 38, [target\<lparr>PurchaseTime := ''15:07'', Points := 38\<rparr>])
   \<and> calculatePoints ref_env (target\<lparr>PurchaseTime := ''14:59''\<rparr>) = Inr 38"
proof -
  have w: "calculatePoints ref_env (target\<lparr>PurchaseTime := t\<rparr>)
             = Inr (28 + (if h = 14 \<or> h = 15 then 10 else 0))
           \<and> getPoints ref_env ''target-1'' [target\<lparr>PurchaseTime := t\<rparr>]
             = (OK_points (28 + (if h = 14 \<or> h = 15 then 10 else 0)),
                [target\<lparr>PurchaseTime := t,
                   Points := 28 + (if h = 14 \<or> h = 15 then 10 else 0)\<rparr>])"
    if "slice t 0 2 = Some hh" and "strconv_Atoi hh = Some h" for t hh h
  proof -
    let ?r = "target\<lparr>PurchaseTime := t\<rparr>"
    have 1: "slice (PurchaseTime ?r) 0 2 = Some hh" using that(1) by simp
    have 3: "calculatePoints ref_env (?r\<lparr>PurchaseTime := ''00:00''\<rparr>) = Inr 28"
      using calculatePoints_target_midnight by simp
    have l: "getReceiptById ''target-1'' [?r] = Some 0 \<and> [?r] ! 0 = ?r \<and> Points ?r = 0"
      by (simp add: target_def)
    note c = C8_afternoon_bonus [OF 1 that(2) 3]
    from c [THEN conjunct1] c [THEN conjunct2, THEN conjunct2, THEN conjunct1, rule_format, OF l]
    show ?thesis by simp
  qed
  have "slice ''14:00'' 0 2 = Some ''14''" "strconv_Atoi ''14'' = Some 14"
    "slice ''13:59'' 0 2 = Some ''13''" "strconv_Atoi ''13'' = Some 13"
    "slice ''15:59'' 0 2 = Some ''15''" "strconv_Atoi ''15'' = Some 15"
    "slice ''16:00'' 0 2 = Some ''16''" "strconv_Atoi ''16'' = Some 16"
    "slice ''15:07'' 0 2 = Some ''15''" "slice ''14:59'' 0 2 = Some ''14''"
    by (simp_all add: string_eval)
  then show ?thesis
    using w [of "''14:00''" "''14''" 14] w [of "''13:59''" "''13''" 13]
      w [of "''15:59''" "''15''" 15] w [of "''16:00''" "''16''" 16] w [of "''15:07''" "''15''" 15]
      w [of "''14:59''" "''14''" 14]
    by simp
qed

subsection \<open>C9: a total of 9.00\<close>



subsection \<open>C10: what a query writes\<close>

text \<open>
  Claim C10: a query keeps the length of the slice; of every receipt it keeps every
  field but \<open>Points\<close>, and it keeps whole every receipt but the one it finds. When it
  changes the slice, the receipt found had points 0 and gets the points answered,
  which are not 0; from then on no request changes that receipt, and the same query
  again writes nothing.
\<close>

theorem C10_getPoints_frame:
  assumes "getPoints E ident receipts = (resp, receipts')"
  shows "length receipts' = length receipts
         \<and> (\<forall>j < length receipts.
               receipts' ! j = (receipts ! j)\<lparr>Points := Points (receipts' ! j)\<rparr>
               \<and> (getReceiptById ident receipts \<noteq> Some j \<longrightarrow> receipts' ! j = receipts ! j))
         \<and> (receipts' \<noteq> receipts \<longrightarrow>
               (\<exists>i. getReceiptById ident receipts = Some i \<and> Points (receipts ! i) = 0
                  \<and> Points (receipts' ! i) \<noteq> 0 \<and> resp = OK_points (Points (receipts' ! i))
                  \<and> (\<forall>E' qs. serve E' qs receipts' ! i = receipts' ! i)))
         \<and> snd (getPoints E ident receipts') = receipts'"
proof -
  from getPoints_cases [OF assms] show ?thesis
  proof
    assume same: "receipts' = receipts"
    with assms show ?thesis by simp
  next
    assume "\<exists>i p. getReceiptById ident receipts = Some i \<and> Points (receipts ! i) = 0 \<and>
        calculatePoints E (receipts ! i) = Inr p \<and> resp = OK_points p \<and>
        receipts' = receipts[i := (receipts ! i)\<lparr>Points := p\<rparr>]"
    then obtain i p where i: "getReceiptById ident receipts = Some i"
      and z: "Points (receipts ! i) = 0" and resp: "resp = OK_points p"
      and upd: "receipts' = receipts[i := (receipts ! i)\<lparr>Points := p\<rparr>]" by blast
    from getReceiptById_Some [OF i] have len: "i < length receipts" by simp
    have 1: "length receipts' = length receipts" by (simp add: upd)
    have 2: "\<forall>j < length receipts.
               receipts' ! j = (receipts ! j)\<lparr>Points := Points (receipts' ! j)\<rparr>
               \<and> (getReceiptById ident receipts \<noteq> Some j \<longrightarrow> receipts' ! j = receipts ! j)"
    proof (intro allI impI conjI)
      fix j
      assume "j < length receipts"
      then show "receipts' ! j = (receipts ! j)\<lparr>Points := Points (receipts' ! j)\<rparr>"
        by (cases "j = i") (simp_all add: upd receipt_Points_same)
    next
      fix j
      assume "j < length receipts" and "getReceiptById ident receipts \<noteq> Some j"
      then have "j \<noteq> i" using i by auto
      then show "receipts' ! j = receipts ! j" by (simp add: upd)
    qed
    have at: "Points (receipts' ! i) = p" using len by (simp add: upd)
    have ids: "map ID receipts' = map ID receipts"
      using getPoints_ids [of E ident receipts] assms by simp
    have i': "getReceiptById ident receipts' = Some i"
      using i getReceiptById_ids [OF ids, of ident] by simp
    have 3: "receipts' \<noteq> receipts \<longrightarrow>
               (\<exists>i. getReceiptById ident receipts = Some i \<and> Points (receipts ! i) = 0
                  \<and> Points (receipts' ! i) \<noteq> 0 \<and> resp = OK_points (Points (receipts' ! i))
                  \<and> (\<forall>E' qs. serve E' qs receipts' ! i = receipts' ! i))"
    proof
      assume ne: "receipts' \<noteq> receipts"
      have "p \<noteq> 0"
      proof
        assume "p = 0"
        then have "(receipts ! i)\<lparr>Points := p\<rparr> = receipts ! i" using z by simp
        then have "receipts' = receipts" by (simp add: upd)
        with ne show False by simp
      qed
      then have nz: "Points (receipts' ! i) \<noteq> 0" using at by simp
      have "\<forall>E' qs. serve E' qs receipts' ! i = receipts' ! i"
        using serve_keeps [OF i' nz] by simp
      with i z at resp \<open>p \<noteq> 0\<close>
      show "\<exists>i. getReceiptById ident receipts = Some i \<and> Points (receipts ! i) = 0
                  \<and> Points (receipts' ! i) \<noteq> 0 \<and> resp = OK_points (Points (receipts' ! i))
                  \<and> (\<forall>E' qs. serve E' qs receipts' ! i = receipts' ! i)"
        by auto
    qed
    have 4: "snd (getPoints E ident receipts') = receipts'"
    proof (cases "p = 0")
      case True
      then have "(receipts ! i)\<lparr>Points := p\<rparr> = receipts ! i" using z by simp
      then have "receipts' = receipts" by (simp add: upd)
      with assms show ?thesis by simp
    next
      case False
      from getPoints_cached [OF i', of E] at False show ?thesis by simp
    qed
    from 1 2 3 4 show ?thesis by blast
  qed
qed

theorem C10_getPoints_frame_witness:
  "getPoints ref_env ''target-1'' [corner, target] = (OK_points 28, [corner, target\<lparr>Points := 28\<rparr>])
   \<and> snd (getPoints ref_env ''target-1'' [corner, target\<lparr>Points := 28\<rparr>])
       = [corner, target\<lparr>Points := 28\<rparr>]"
proof -
  have g: "getPoints ref_env ''target-1'' [corner, target]
             = (OK_points 28, [corner, target\<lparr>Points := 28\<rparr>])"
    by (simp add: getPoints_def calculatePoints_target) (simp add: target_def corner_def)
  from C10_getPoints_frame [OF g] g show ?thesis by simp
qed

end
